theory Spec2Isabelle
  imports Main "HOL-Library.Word"
begin

unbundle bit_operations_syntax

section \<open>The HSM API of xfsdump (dump/hsmapi.c)\<close>

text \<open>
  A shallow embedding of \<^verbatim>\<open>src/dump/hsmapi.c\<close>: the DMF attribute as it is stored
  within XFS, the MSB codec, the file context and the routines that make a
  dual-residency file appear offline in a dump.

  C data is modelled as follows. \<^verbatim>\<open>u_char\<close> is \<open>8 word\<close>, \<^verbatim>\<open>u_int64_t\<close>, \<^verbatim>\<open>off64_t\<close> and
  \<^verbatim>\<open>__int64_t\<close> are \<open>64 word\<close> (read with \<open>sint\<close> where the C type is signed),
  \<^verbatim>\<open>u_int32_t\<close> and \<^verbatim>\<open>__int32_t\<close> are \<open>32 word\<close>. A pointer into an array of
  \<^verbatim>\<open>u_char\<close> is the array (a list) together with an offset. A structure overlaid on
  the attribute buffer is the byte offset of each of its fields.
\<close>

subsection \<open>Constants of the system headers\<close>

text \<open>
  The headers \<^verbatim>\<open>xfs/libxfs.h\<close>, \<^verbatim>\<open>attr/attributes.h\<close> and \<^verbatim>\<open>xfs/dmapi.h\<close> are not part
  of the source file. Every constant the code takes from them is a field of the
  parameter \<open>h\<close> below, so that each result holds whatever the headers define.
\<close>

type_synonym u_char = "8 word"

record sys_headers =
  S_IFMT :: "32 word"
  S_IFREG :: "32 word"
  XFS_XFLAG_HASATTR :: "32 word"
  DM_EVENT_DESTROY :: nat
  DM_EVENT_READ :: nat
  DM_EVENT_WRITE :: nat
  DM_EVENT_TRUNCATE :: nat
  ATTR_ROOT :: "32 word"
  ATTR_OP_GET :: "32 word"
  BBSHIFT :: nat

text \<open>The values of these constants on Linux, used where a concrete input is evaluated.\<close>

definition linux_headers :: sys_headers where
  "linux_headers =
     \<lparr> S_IFMT = 0xF000, S_IFREG = 0x8000, XFS_XFLAG_HASATTR = 0x80000000,
       DM_EVENT_DESTROY = 20, DM_EVENT_READ = 16, DM_EVENT_WRITE = 17,
       DM_EVENT_TRUNCATE = 18, ATTR_ROOT = 2, ATTR_OP_GET = 1, BBSHIFT = 9 \<rparr>"

text \<open>
  Modelled from the spec: the macro \<^verbatim>\<open>BTOBB\<close> of the XFS headers is not in the source
  file. The spec calls it \<open>ceil_to_block\<close>: a byte count rounded up to whole basic blocks
  of \<open>2 ^ BBSHIFT\<close> bytes, computed on \<^verbatim>\<open>__u64\<close>:
  \<^verbatim>\<open>(((__u64)(bytes) + BBSIZE - 1) >> BBSHIFT)\<close>.
\<close>

definition BTOBB :: "sys_headers \<Rightarrow> 64 word \<Rightarrow> 64 word" where
  "BTOBB h bytes = drop_bit (BBSHIFT h) (bytes + push_bit (BBSHIFT h) 1 - 1)"

subsection \<open>The DMF attribute\<close>

definition DMF_ATTR_NAME :: string where
  "DMF_ATTR_NAME = ''SGI_DMI_DMFATTR''"

text \<open>
  \<^verbatim>\<open>XFSattrvalue0_t\<close>, \<^verbatim>\<open>XFSattrvalue1_t\<close> and \<^verbatim>\<open>XFSattrregion_t\<close> have members of type
  \<^verbatim>\<open>u_char\<close> only, so there is no padding: a member's offset is the sum of the sizes of
  the members before it. The first 22 bytes of both attribute formats agree.
\<close>

named_theorems layout \<open>sizes and member offsets of the attribute structures\<close>

definition off_fsys :: nat where "off_fsys = 0"
definition off_version :: nat where "off_version = 1"
definition off_state :: nat where "off_state = 2"
definition off_flags :: nat where "off_flags = 4"
definition off_bfid :: nat where "off_bfid = 6"
definition off_sitetag :: nat where "off_sitetag = 22"
definition off_regcnt :: nat where "off_regcnt = 26"

definition sizeof_XFSattrvalue0_t :: nat where "sizeof_XFSattrvalue0_t = 1 + 1 + 2 + 2 + 16"
definition sizeof_XFSattrvalue1_t :: nat where "sizeof_XFSattrvalue1_t = 1 + 1 + 2 + 2 + 16 + 4 + 2"

definition off_rg_offset :: nat where "off_rg_offset = 0"
definition off_rg_size :: nat where "off_rg_size = 8"
definition off_rg_state :: nat where "off_rg_state = 16"
definition off_rg_flags :: nat where "off_rg_flags = 18"
definition off_rg_fbits :: nat where "off_rg_fbits = 19"

definition sizeof_XFSattrregion_t :: nat where "sizeof_XFSattrregion_t = 8 + 8 + 2 + 1 + 1"

definition MIN_FORMAT1_ATTR_LEN :: nat where
  "MIN_FORMAT1_ATTR_LEN = sizeof_XFSattrvalue1_t + sizeof_XFSattrregion_t"

definition FSYS_TYPE_XFS :: u_char where "FSYS_TYPE_XFS = 1"
definition DMF_ATTR_FORMAT_0 :: u_char where "DMF_ATTR_FORMAT_0 = 0"
definition DMF_ATTR_FORMAT_1 :: u_char where "DMF_ATTR_FORMAT_1 = 1"

definition DMF_ST_DUALSTATE :: "'a::len word" where "DMF_ST_DUALSTATE = 2"
definition DMF_ST_OFFLINE :: "'a::len word" where "DMF_ST_OFFLINE = 3"
definition DMF_ST_UNMIGRATING :: "'a::len word" where "DMF_ST_UNMIGRATING = 4"
definition DMF_ST_PARTIAL :: "'a::len word" where "DMF_ST_PARTIAL = 6"

definition DMF_EV_BITS :: "sys_headers \<Rightarrow> 32 word" where
  "DMF_EV_BITS h =
     push_bit (DM_EVENT_DESTROY h) 1 OR push_bit (DM_EVENT_READ h) 1 OR
     push_bit (DM_EVENT_WRITE h) 1 OR push_bit (DM_EVENT_TRUNCATE h) 1"

definition DMF_MR_FLAGS :: u_char where "DMF_MR_FLAGS = 0x1 OR 0x2 OR 0x4"

declare off_fsys_def [layout] off_version_def [layout] off_state_def [layout]
  off_flags_def [layout] off_bfid_def [layout] off_sitetag_def [layout]
  off_regcnt_def [layout] sizeof_XFSattrvalue0_t_def [layout]
  sizeof_XFSattrvalue1_t_def [layout] off_rg_offset_def [layout]
  off_rg_size_def [layout] off_rg_state_def [layout] off_rg_flags_def [layout]
  off_rg_fbits_def [layout] sizeof_XFSattrregion_t_def [layout]
  MIN_FORMAT1_ATTR_LEN_def [layout]

subsection \<open>The contexts\<close>

record dmf_fs_ctxt =
  dumpversion :: int
  fsid :: "64 word"

text \<open>
  \<open>attrval\<close> is the array \<^verbatim>\<open>char attrval[5000]\<close>: a context of the program always has
  \<open>length (attrval c) = 5000\<close>, which \<open>wf_ctxt\<close> states.
\<close>

record dmf_f_ctxt =
  fsys :: dmf_fs_ctxt
  filesize :: "64 word"
  candidate :: int
  attrlen :: int
  attrval :: "u_char list"

definition ATTRVAL_SIZE :: nat where "ATTRVAL_SIZE = 5000"

definition wf_ctxt :: "dmf_f_ctxt \<Rightarrow> bool" where
  "wf_ctxt c = (length (attrval c) = ATTRVAL_SIZE)"

text \<open>The members of \<^verbatim>\<open>xfs_bstat_t\<close> and of \<^verbatim>\<open>struct getbmapx\<close> that the code reads or writes.\<close>

record xfs_bstat =
  bs_ino :: "64 word"
  bs_mode :: "16 word"
  bs_size :: "64 word"
  bs_xflags :: "32 word"
  bs_gen :: "32 word"
  bs_dmevmask :: "32 word"

record getbmapx =
  bmv_offset :: "64 word"
  bmv_block :: "64 word"
  bmv_length :: "64 word"
  bmv_count :: "32 word"
  bmv_entries :: "32 word"

subsection \<open>The MSB codec\<close>

text \<open>
  \<^verbatim>\<open>msb_store(dest, src, length)\<close>: the loop runs \<open>i\<close> from \<open>length - 1\<close> down to \<open>0\<close>; the
  last argument of \<open>msb_store_loop\<close> is \<open>i + 1\<close>. The pointer \<^verbatim>\<open>dest\<close> is the array \<open>dest\<close>
  at offset \<open>off\<close>. Every call of the program passes the size of a member of one of the
  attribute structures as \<open>length\<close>, and these lie within the array.
\<close>

primrec msb_store_loop :: "u_char list \<Rightarrow> nat \<Rightarrow> 64 word \<Rightarrow> nat \<Rightarrow> u_char list" where
  "msb_store_loop dest off src 0 = dest"
| "msb_store_loop dest off src (Suc i) =
     msb_store_loop (dest[off + i := ucast (src AND 0xff)]) off (drop_bit 8 src) i"

definition msb_store :: "u_char list \<Rightarrow> nat \<Rightarrow> 64 word \<Rightarrow> nat \<Rightarrow> u_char list" where
  "msb_store dest off src len = msb_store_loop dest off src len"

text \<open>
  \<^verbatim>\<open>msb_load(src, length)\<close>: the loop runs \<open>i\<close> upwards; \<open>msb_load_loop\<close> takes the index of
  the next byte, the number of bytes left and \<^verbatim>\<open>tmp\<close>.
\<close>

primrec msb_load_loop :: "u_char list \<Rightarrow> nat \<Rightarrow> nat \<Rightarrow> 64 word \<Rightarrow> 64 word" where
  "msb_load_loop src i 0 tmp = tmp"
| "msb_load_loop src i (Suc n) tmp =
     msb_load_loop src (Suc i) n (push_bit 8 tmp OR ucast (src ! i))"

definition msb_load :: "u_char list \<Rightarrow> nat \<Rightarrow> nat \<Rightarrow> 64 word" where
  "msb_load src off len = msb_load_loop src off len 0"

subsection \<open>The external collaborators\<close>

text \<open>
  \<^verbatim>\<open>dm_make_handle\<close> and \<^verbatim>\<open>attr_multi_by_handle\<close> are library calls. The environment
  \<open>env\<close> gives their answers: \<open>dm_make_handle\<close> its return value and the handle,
  \<open>attr_multi_by_handle\<close> its return value, the \<^verbatim>\<open>am_error\<close> it leaves in the operation
  and the bytes it stored through \<^verbatim>\<open>am_attrvalue\<close>, whose number it leaves in
  \<^verbatim>\<open>am_length\<close>. The calls a routine makes are returned as a list, in order.
\<close>

record attr_multiop =
  am_opcode :: "32 word"
  am_error :: int
  am_attrname :: string
  am_length :: int
  am_flags :: "32 word"

record attr_reply =
  reply_ret :: int
  reply_am_error :: int
  reply_value :: "u_char list"

record hsm_env =
  dm_make_handle :: "64 word \<Rightarrow> 64 word \<Rightarrow> 32 word \<Rightarrow> int \<times> u_char list"
  attr_multi_by_handle :: "u_char list \<Rightarrow> attr_multiop \<Rightarrow> attr_reply"

datatype ext_call =
    Call_dm_make_handle "64 word" "64 word" "32 word"
  | Call_attr_multi_by_handle "u_char list" attr_multiop
  | Call_free_handle "u_char list"

text \<open>The bytes \<open>v\<close> stored at the start of the array \<open>buf\<close>; the rest of the array stays.\<close>

definition store_value :: "u_char list \<Rightarrow> u_char list \<Rightarrow> u_char list" where
  "store_value buf v = take (length buf) (v @ drop (length v) buf)"

subsection \<open>HsmAllocateFileContext\<close>

text \<open>
  \<^verbatim>\<open>malloc\<close> answers \<open>None\<close> (\<^verbatim>\<open>NULL\<close>) or a block whose contents are indeterminate: the
  block is a parameter.
\<close>

definition HsmAllocateFileContext :: "dmf_fs_ctxt \<Rightarrow> dmf_f_ctxt option \<Rightarrow> dmf_f_ctxt option" where
  "HsmAllocateFileContext contextp malloc_result =
     (case malloc_result of
        None \<Rightarrow> None
      | Some blk \<Rightarrow> Some (blk\<lparr>fsys := contextp, candidate := 0\<rparr>))"

subsection \<open>HsmInitFileContext\<close>

text \<open>
  The result is the return value, the context as the call leaves it and the external
  calls made. \<^verbatim>\<open>attrlen\<close> is compared with a \<^verbatim>\<open>size_t\<close>; it holds the length of the value
  fetched, which is not negative, so the conversion to \<^verbatim>\<open>size_t\<close> keeps its value.
\<close>

definition HsmInitFileContext ::
  "sys_headers \<Rightarrow> hsm_env \<Rightarrow> dmf_f_ctxt \<Rightarrow> xfs_bstat \<Rightarrow> int \<times> dmf_f_ctxt \<times> ext_call list" where
  "HsmInitFileContext h env contextp statp =
     (let c0 = contextp\<lparr>candidate := 0\<rparr> in
      if ucast (bs_mode statp) AND S_IFMT h \<noteq> S_IFREG h then (0, c0, [])
      else if bs_xflags statp AND XFS_XFLAG_HASATTR h = 0 then (0, c0, [])
      else if bs_dmevmask statp AND DMF_EV_BITS h = 0 then (0, c0, [])
      else
        let ino = bs_ino statp;
            igen = bs_gen statp;
            made = dm_make_handle env (fsid (fsys c0)) ino igen;
            hanp = snd made;
            call1 = Call_dm_make_handle (fsid (fsys c0)) ino igen
        in
        if fst made \<noteq> 0 then (0, c0, [call1])
        else
          let attr_op = \<lparr> am_opcode = ATTR_OP_GET h, am_error = 0,
                          am_attrname = DMF_ATTR_NAME,
                          am_length = int ATTRVAL_SIZE, am_flags = ATTR_ROOT h \<rparr>;
              reply = attr_multi_by_handle env hanp attr_op;
              c1 = c0\<lparr>attrval := store_value (attrval c0) (reply_value reply)\<rparr>;
              calls = [call1, Call_attr_multi_by_handle hanp attr_op, Call_free_handle hanp]
          in
          if reply_ret reply \<noteq> 0 \<or> reply_am_error reply \<noteq> 0 then (0, c1, calls)
          else
            let c2 = c1\<lparr>attrlen := int (length (reply_value reply))\<rparr> in
            if attrval c2 ! off_fsys \<noteq> FSYS_TYPE_XFS then (0, c2, calls)
            else if
              (if attrval c2 ! off_version = DMF_ATTR_FORMAT_0
               then attrlen c2 \<noteq> int sizeof_XFSattrvalue0_t
               else if attrval c2 ! off_version = DMF_ATTR_FORMAT_1
               then attrlen c2 < int MIN_FORMAT1_ATTR_LEN
               else True)
            then (0, c2, calls)
            else
              let state = (ucast (msb_load (attrval c2) off_state 2) :: 32 word) in
              if state = DMF_ST_DUALSTATE \<or> state = DMF_ST_UNMIGRATING \<or>
                 state = DMF_ST_PARTIAL \<or> state = DMF_ST_OFFLINE
              then (0, c2\<lparr>candidate := 1, filesize := bs_size statp\<rparr>, calls)
              else (0, c2, calls))"

subsection \<open>HsmEstimateFileOffset\<close>

text \<open>
  \<open>stack\<close> is the indeterminate content of the local \<^verbatim>\<open>dmf_f_ctxt\<close>. The result is the
  return value, \<^verbatim>\<open>*byteoffset\<close> after the call and the external calls made.
\<close>

definition HsmEstimateFileOffset ::
  "sys_headers \<Rightarrow> hsm_env \<Rightarrow> dmf_fs_ctxt \<Rightarrow> xfs_bstat \<Rightarrow> 64 word \<Rightarrow> 64 word \<Rightarrow> dmf_f_ctxt
     \<Rightarrow> int \<times> 64 word \<times> ext_call list" where
  "HsmEstimateFileOffset h env contextp statp bytecount byteoffset stack =
     (let dmf_f_ctxt = stack\<lparr>fsys := contextp, candidate := 0\<rparr>;
          r = HsmInitFileContext h env dmf_f_ctxt statp;
          dmf_f_ctxt' = fst (snd r);
          calls = snd (snd r)
      in
      if fst r \<noteq> 0 then (0, byteoffset, calls)
      else if candidate dmf_f_ctxt' \<noteq> 0 then (1, bs_size statp, calls)
      else (0, byteoffset, calls))"

text \<open>
  The explicit sequence of the spec: allocate a file context, classify the file with it,
  and ask the context whether the file is a candidate and for its size.
\<close>

definition explicit_estimate ::
  "sys_headers \<Rightarrow> hsm_env \<Rightarrow> dmf_fs_ctxt \<Rightarrow> xfs_bstat \<Rightarrow> dmf_f_ctxt option
     \<Rightarrow> (64 word option \<times> ext_call list) option" where
  "explicit_estimate h env contextp statp malloc_result =
     (case HsmAllocateFileContext contextp malloc_result of
        None \<Rightarrow> None
      | Some c \<Rightarrow>
          let r = HsmInitFileContext h env c statp;
              c' = fst (snd r)
          in Some (if fst r = 0 \<and> candidate c' \<noteq> 0 then Some (filesize c') else None,
                   snd (snd r)))"

subsection \<open>HsmModifyExtentMap\<close>

text \<open>
  \<^verbatim>\<open>bmap\<close> is the array of \<^verbatim>\<open>struct getbmapx\<close>. The code reads \<^verbatim>\<open>bmap[0]\<close> always and
  \<^verbatim>\<open>bmap[1]\<close> for a candidate with a positive count; where the array is too short for
  that the behaviour of the C code is undefined and the model answers \<open>None\<close>.
  \<^verbatim>\<open>length\<close> is an \<^verbatim>\<open>__int64_t\<close>: the difference is computed on 64 bits and read as signed.
\<close>

definition HsmModifyExtentMap ::
  "sys_headers \<Rightarrow> dmf_f_ctxt \<Rightarrow> getbmapx list \<Rightarrow> (int \<times> getbmapx list) option" where
  "HsmModifyExtentMap h contextp bmap =
     (case bmap of
        [] \<Rightarrow> None
      | b0 # rest \<Rightarrow>
          if sint (bmv_entries b0) \<le> 0 then Some (1, bmap)
          else if candidate contextp = 0 then Some (1, bmap)
          else
            (case rest of
               [] \<Rightarrow> None
             | b1 # bs \<Rightarrow>
                 let len = BTOBB h (filesize contextp) - bmv_offset b1 in
                 if 0 < sint len
                 then Some (1, b0\<lparr>bmv_entries := 1\<rparr> #
                               b1\<lparr>bmv_block := - 1, bmv_length := len\<rparr> # bs)
                 else Some (1, b0\<lparr>bmv_entries := 0\<rparr> # b1 # bs)))"

text \<open>The number of blocks from the current extent to the end of the file, as the code computes it.\<close>

definition remaining_blocks :: "sys_headers \<Rightarrow> dmf_f_ctxt \<Rightarrow> getbmapx \<Rightarrow> int" where
  "remaining_blocks h contextp b1 = sint (BTOBB h (filesize contextp) - bmv_offset b1)"

text \<open>The spec's \<open>ceil_to_block\<close> on unbounded integers, for blocks of \<open>2 ^ s\<close> bytes.\<close>

definition ceil_to_block :: "nat \<Rightarrow> int \<Rightarrow> int" where
  "ceil_to_block s bytes = (bytes + 2 ^ s - 1) div 2 ^ s"

subsection \<open>HsmFilterExistingAttribute\<close>

text \<open>
  The result is the return value and \<^verbatim>\<open>*skip_entry\<close> after the call; the last argument
  is \<^verbatim>\<open>*skip_entry\<close> before it.
\<close>

definition HsmFilterExistingAttribute ::
  "sys_headers \<Rightarrow> dmf_f_ctxt \<Rightarrow> string \<Rightarrow> 32 word \<Rightarrow> 32 word \<Rightarrow> int \<Rightarrow> int \<times> int" where
  "HsmFilterExistingAttribute h hsm_f_ctxtp namep valuesz flag skip_entry =
     (let skip_entry0 = 0 in
      if candidate hsm_f_ctxtp = 0 then (1, skip_entry0)
      else if flag \<noteq> ATTR_ROOT h then (1, skip_entry0)
      else if namep \<noteq> DMF_ATTR_NAME then (1, skip_entry0)
      else if unat valuesz < sizeof_XFSattrvalue0_t then (0, skip_entry0)
      else (1, 1))"

subsection \<open>HsmAddNewAttribute\<close>

text \<open>
  The three result parameters of the caller: \<^verbatim>\<open>*namepp\<close> (\<open>None\<close> is \<^verbatim>\<open>NULL\<close>), the
  bytes of the value that \<^verbatim>\<open>*valuepp\<close> points to, and \<^verbatim>\<open>*valueszp\<close>. The routine sets
  \<^verbatim>\<open>*valuepp\<close> to the start of \<^verbatim>\<open>attrval\<close>; the value is the first \<^verbatim>\<open>attrlen\<close> bytes there.
\<close>

record new_attr =
  namepp :: "string option"
  valuepp :: "u_char list"
  valueszp :: "32 word"

definition HsmAddNewAttribute ::
  "sys_headers \<Rightarrow> dmf_f_ctxt \<Rightarrow> int \<Rightarrow> 32 word \<Rightarrow> new_attr \<Rightarrow> int \<times> dmf_f_ctxt \<times> new_attr" where
  "HsmAddNewAttribute h hsm_f_ctxtp cursor flag out =
     (let out0 = out\<lparr>namepp := None\<rparr> in
      if candidate hsm_f_ctxtp = 0 then (1, hsm_f_ctxtp, out0)
      else if flag \<noteq> ATTR_ROOT h then (1, hsm_f_ctxtp, out0)
      else if cursor > 0 then (1, hsm_f_ctxtp, out0)
      else
        let c1 =
              (if attrval hsm_f_ctxtp ! off_version = DMF_ATTR_FORMAT_1 \<and>
                  msb_load (attrval hsm_f_ctxtp) off_sitetag 4 \<noteq> 0
               then
                 let reg = sizeof_XFSattrvalue1_t;
                     a0 = attrval hsm_f_ctxtp;
                     a1 = msb_store a0 off_regcnt 1 2;
                     a2 = msb_store a1 (reg + off_rg_offset) 0 8;
                     a3 = msb_store a2 (reg + off_rg_size) (filesize hsm_f_ctxtp) 8;
                     a4 = msb_store a3 (reg + off_rg_state) DMF_ST_OFFLINE 2;
                     a5 = a4[reg + off_rg_flags := DMF_MR_FLAGS];
                     a6 = a5[reg + off_rg_fbits := 0]
                 in hsm_f_ctxtp\<lparr>attrlen := int MIN_FORMAT1_ATTR_LEN, attrval := a6\<rparr>
               else
                 hsm_f_ctxtp\<lparr>attrval := (attrval hsm_f_ctxtp)[off_version := DMF_ATTR_FORMAT_0],
                              attrlen := int sizeof_XFSattrvalue0_t\<rparr>);
            c2 = c1\<lparr>attrval := msb_store (attrval c1) off_state DMF_ST_OFFLINE 2\<rparr>
        in (1, c2, \<lparr> namepp = Some DMF_ATTR_NAME,
                      valuepp = take (nat (attrlen c2)) (attrval c2),
                      valueszp = word_of_int (attrlen c2) \<rparr>))"

subsection \<open>Auxiliary notions for the proofs\<close>

text \<open>The bytes of a value in MSB order, and the value of a sequence of bytes.\<close>

primrec be_bytes :: "64 word \<Rightarrow> nat \<Rightarrow> u_char list" where
  "be_bytes v 0 = []"
| "be_bytes v (Suc n) = be_bytes (drop_bit 8 v) n @ [ucast v]"

definition be_value :: "u_char list \<Rightarrow> 64 word" where
  "be_value bs = foldl (\<lambda>t b. push_bit 8 t OR ucast b) 0 bs"

subsection \<open>Notions used to state the results\<close>

text \<open>The three cheap checks of \<open>HsmInitFileContext\<close> all pass.\<close>

definition cheap_checks_pass :: "sys_headers \<Rightarrow> xfs_bstat \<Rightarrow> bool" where
  "cheap_checks_pass h statp =
     (ucast (bs_mode statp) AND S_IFMT h = S_IFREG h \<and>
      bs_xflags statp AND XFS_XFLAG_HASATTR h \<noteq> 0 \<and>
      bs_dmevmask statp AND DMF_EV_BITS h \<noteq> 0)"

text \<open>What the environment answers to the two calls of \<open>HsmInitFileContext\<close>.\<close>

definition made_handle :: "hsm_env \<Rightarrow> dmf_f_ctxt \<Rightarrow> xfs_bstat \<Rightarrow> int \<times> u_char list" where
  "made_handle env c statp = dm_make_handle env (fsid (fsys c)) (bs_ino statp) (bs_gen statp)"

definition fetch_reply :: "sys_headers \<Rightarrow> hsm_env \<Rightarrow> dmf_f_ctxt \<Rightarrow> xfs_bstat \<Rightarrow> attr_reply" where
  "fetch_reply h env c statp =
     attr_multi_by_handle env (snd (made_handle env c statp))
       \<lparr> am_opcode = ATTR_OP_GET h, am_error = 0, am_attrname = DMF_ATTR_NAME,
         am_length = int ATTRVAL_SIZE, am_flags = ATTR_ROOT h \<rparr>"

definition fetch_succeeds :: "sys_headers \<Rightarrow> hsm_env \<Rightarrow> dmf_f_ctxt \<Rightarrow> xfs_bstat \<Rightarrow> bool" where
  "fetch_succeeds h env c statp =
     (fst (made_handle env c statp) = 0 \<and>
      reply_ret (fetch_reply h env c statp) = 0 \<and>
      reply_am_error (fetch_reply h env c statp) = 0)"

text \<open>
  The spec's condition on the fetched bytes \<open>v\<close>: format 0 with exactly the 22 bytes of
  its header, or format 1 with at least the 28 bytes of its header and one region of 20
  bytes; the supported filesystem type; a global state among 2, 3, 4 and 6.
\<close>

definition attr_qualifies :: "u_char list \<Rightarrow> bool" where
  "attr_qualifies v =
     ((length v = 22 \<and> v ! 1 = 0 \<or> 28 + 20 \<le> length v \<and> v ! 1 = 1) \<and>
      v ! 0 = 1 \<and>
      msb_load v 2 2 \<in> {2, 3, 4, 6})"

text \<open>
  The same condition with the global state read from the bytes themselves: the byte at
  offset 2 counts 256 and the byte at offset 3 counts 1, most significant byte first.
\<close>

definition header_qualifies :: "u_char list \<Rightarrow> bool" where
  "header_qualifies v =
     (v ! 0 = 1 \<and>
      (v ! 1 = 0 \<and> length v = 22 \<or> v ! 1 = 1 \<and> 28 + 20 \<le> length v) \<and>
      256 * unat (v ! 2) + unat (v ! 3) \<in> {2, 3, 4, 6})"

text \<open>The optional byte offset that a result of \<open>HsmEstimateFileOffset\<close> signals to its caller.\<close>

definition estimate_of :: "int \<times> 64 word \<times> ext_call list \<Rightarrow> 64 word option \<times> ext_call list" where
  "estimate_of r = (if fst r \<noteq> 0 then Some (fst (snd r)) else None, snd (snd r))"

subsection \<open>Concrete inputs\<close>

text \<open>
  A format 0 attribute in state offline (3), and a format 1 attribute in state dual (2)
  with site tag 5 and one region, of size 0 and in state dual.
\<close>

definition example_attr0 :: "u_char list" where
  "example_attr0 =
     [1, 0, 0, 3, 0, 0,
      0, 0, 0, 0, 0, 0, 0, 0, 0, 0, 0, 0, 0, 0, 0, 0]"

definition example_attr1 :: "u_char list" where
  "example_attr1 =
     [1, 1, 0, 2, 0, 0,
      0, 0, 0, 0, 0, 0, 0, 0, 0, 0, 0, 0, 0, 0, 0, 0,
      0, 0, 0, 5, 0, 1,
      0, 0, 0, 0, 0, 0, 0, 0, 0, 0, 0, 0, 0, 0, 0, 0, 0, 2, 7, 0]"

text \<open>A regular file of 1000 bytes with attributes and the four DMF event bits set.\<close>

definition example_statp :: xfs_bstat where
  "example_statp =
     \<lparr> bs_ino = 100, bs_mode = 0x81A4, bs_size = 1000, bs_xflags = 0x80000000,
       bs_gen = 1, bs_dmevmask = 0x170000 \<rparr>"

text \<open>A directory.\<close>

definition example_dir :: xfs_bstat where
  "example_dir = example_statp\<lparr>bs_mode := 0x41ED\<rparr>"

text \<open>An environment whose attribute fetch answers \<open>v\<close>, and one whose fetch fails.\<close>

definition example_env :: "u_char list \<Rightarrow> hsm_env" where
  "example_env v =
     \<lparr> dm_make_handle = (\<lambda>fsid ino igen. (0, [1, 2, 3])),
       attr_multi_by_handle =
         (\<lambda>hanp op. \<lparr> reply_ret = 0, reply_am_error = 0, reply_value = v \<rparr>) \<rparr>"

definition failing_env :: hsm_env where
  "failing_env =
     \<lparr> dm_make_handle = (\<lambda>fsid ino igen. (0, [1, 2, 3])),
       attr_multi_by_handle =
         (\<lambda>hanp op. \<lparr> reply_ret = - 1, reply_am_error = 0, reply_value = [] \<rparr>) \<rparr>"

text \<open>A context whose array holds the bytes \<open>v\<close> first and that a previous file left a candidate.\<close>

definition example_ctxt :: "u_char list \<Rightarrow> dmf_f_ctxt" where
  "example_ctxt v =
     \<lparr> fsys = \<lparr> dumpversion = 1, fsid = 7 \<rparr>, filesize = 1000, candidate = 1,
       attrlen = int (length v), attrval = v @ replicate (ATTRVAL_SIZE - length v) 0 \<rparr>"

text \<open>A format 0 attribute in state 5, which is none of the four states.\<close>

definition example_attr5 :: "u_char list" where
  "example_attr5 =
     [1, 0, 0, 5, 0, 0,
      0, 0, 0, 0, 0, 0, 0, 0, 0, 0, 0, 0, 0, 0, 0, 0]"

text \<open>
  A context that is no candidate and holds another size than the file's, and one that a
  previous file left a candidate with that other size.
\<close>

definition example_fresh :: dmf_f_ctxt where
  "example_fresh = (example_ctxt [])\<lparr>filesize := 7, candidate := 0\<rparr>"

definition example_stale :: dmf_f_ctxt where
  "example_stale = (example_ctxt [])\<lparr>filesize := 7\<rparr>"

text \<open>The context after the classification of a file whose attribute is \<open>example_attr1\<close>.\<close>

definition example_classified :: dmf_f_ctxt where
  "example_classified =
     fst (snd (HsmInitFileContext linux_headers (example_env example_attr1) (example_ctxt [])
                 example_statp))"

definition example_b0 :: getbmapx where
  "example_b0 = \<lparr> bmv_offset = 0, bmv_block = 0, bmv_length = - 1, bmv_count = 2, bmv_entries = 1 \<rparr>"

definition example_b1 :: getbmapx where
  "example_b1 = \<lparr> bmv_offset = 0, bmv_block = 80, bmv_length = 2, bmv_count = 0, bmv_entries = 0 \<rparr>"

section \<open>The codec\<close>

lemma length_be_bytes [simp]: "length (be_bytes v n) = n"
  by (induction n arbitrary: v) simp_all

lemma ucast_low_byte: "(ucast (src AND (0xff :: 64 word)) :: 8 word) = ucast src"
proof -
  have m: "(0xff :: 64 word) = mask 8" by (simp add: mask_eq_exp_minus_1)
  show ?thesis unfolding m by (rule bit_word_eqI) (simp add: bit_simps)
qed

lemma msb_store_loop_eq:
  "off + n \<le> length dest \<Longrightarrow>
   msb_store_loop dest off src n = take off dest @ be_bytes src n @ drop (off + n) dest"
proof (induction n arbitrary: dest src)
  case 0
  then show ?case by simp
next
  case (Suc n)
  let ?d = "dest[off + n := ucast src]"
  have "msb_store_loop dest off src (Suc n) = msb_store_loop ?d off (drop_bit 8 src) n"
    by (simp add: ucast_low_byte)
  also have "\<dots> = take off ?d @ be_bytes (drop_bit 8 src) n @ drop (off + n) ?d"
    using Suc.prems by (intro Suc.IH) simp
  also have "take off ?d = take off dest" by simp
  also have "drop (off + n) ?d = ucast src # drop (off + Suc n) dest"
    using Suc.prems by (simp add: Cons_nth_drop_Suc [symmetric])
  finally show ?case by simp
qed

lemma msb_load_loop_eq:
  "i + n \<le> length src \<Longrightarrow>
   msb_load_loop src i n tmp = foldl (\<lambda>t b. push_bit 8 t OR ucast b) tmp (take n (drop i src))"
proof (induction n arbitrary: i tmp)
  case 0
  then show ?case by simp
next
  case (Suc n)
  then have "drop i src = src ! i # drop (Suc i) src"
    by (simp add: Cons_nth_drop_Suc)
  with Suc show ?case by simp
qed

lemma be_value_snoc: "be_value (bs @ [b]) = push_bit 8 (be_value bs) OR ucast b"
  by (simp add: be_value_def)

lemma be_value_be_bytes: "be_value (be_bytes v n) = take_bit (8 * n) v"
proof (induction n arbitrary: v)
  case 0
  then show ?case by (simp add: be_value_def)
next
  case (Suc n)
  have "be_value (be_bytes v (Suc n)) =
          push_bit 8 (take_bit (8 * n) (drop_bit 8 v)) OR ucast (ucast v :: 8 word)"
    by (simp add: be_value_snoc Suc.IH)
  also have "\<dots> = take_bit (8 * Suc n) v"
    by (rule bit_word_eqI) (auto simp: bit_simps)
  finally show ?case .
qed

lemma msb_store_eq:
  "off + n \<le> length dest \<Longrightarrow>
   msb_store dest off src n = take off dest @ be_bytes src n @ drop (off + n) dest"
  by (simp add: msb_store_def msb_store_loop_eq)

lemma msb_load_eq:
  "off + n \<le> length src \<Longrightarrow> msb_load src off n = be_value (take n (drop off src))"
  by (simp add: msb_load_def be_value_def msb_load_loop_eq)

lemma length_msb_store [simp]: "length (msb_store dest off src n) = length dest"
  unfolding msb_store_def by (induction n arbitrary: dest src) simp_all

lemma msb_load_msb_store:
  assumes "off + n \<le> length dest"
  shows "msb_load (msb_store dest off v n) off n = take_bit (8 * n) v"
proof -
  have "take n (drop off (msb_store dest off v n)) = be_bytes v n"
    using assms by (simp add: msb_store_eq)
  then show ?thesis
    using assms by (simp add: msb_load_eq be_value_be_bytes)
qed

lemma msb_store_loop_numeral [simp]:
  "msb_store_loop dest off src (numeral k) =
     msb_store_loop (dest[off + pred_numeral k := ucast (src AND 0xff)]) off (drop_bit 8 src)
       (pred_numeral k)"
  by (simp add: numeral_eq_Suc)

lemma msb_load_loop_numeral [simp]:
  "msb_load_loop src i (numeral k) tmp =
     msb_load_loop src (Suc i) (pred_numeral k) (push_bit 8 tmp OR ucast (src ! i))"
  by (simp add: numeral_eq_Suc)

text \<open>
  Claim C8. For every width \<open>w\<close> from 1 to 8 and every unsigned value \<open>v\<close> that \<open>w\<close> bytes
  can hold, \<open>msb_load\<close> of the \<open>w\<close> bytes that \<open>msb_store\<close> wrote for \<open>v\<close> gives \<open>v\<close> back.
  The bytes lie in an array \<open>dest\<close> at offset \<open>off\<close>, within its bounds.
\<close>

theorem msb_roundtrip:
  assumes "1 \<le> w" and "w \<le> 8" and "unat v < 2 ^ (8 * w)" and "off + w \<le> length dest"
  shows "msb_load (msb_store dest off v w) off w = v"
proof -
  have "unat (take_bit (8 * w) v) = unat v"
    using assms(3) by (simp add: unsigned_take_bit_eq take_bit_nat_eq_self)
  then have "take_bit (8 * w) v = v"
    by (simp add: word_unat_eq_iff)
  with assms(4) show ?thesis
    by (simp add: msb_load_msb_store)
qed

theorem msb_roundtrip_witness:
  "(1::nat) \<le> 2 \<and> (2::nat) \<le> 8 \<and> unat (0x0102 :: 64 word) < 2 ^ (8 * 2) \<and>
   1 + 2 \<le> length [0, 0, 0 :: u_char] \<and>
   msb_store [0, 0, 0] 1 0x0102 2 = [0, 1, 2] \<and>
   msb_load (msb_store [0, 0, 0] 1 0x0102 2) 1 2 = 0x0102"
  using msb_roundtrip [of 2 "0x0102" 1 "[0, 0, 0]"]
  by (simp add: msb_store_def)

section \<open>The classifier\<close>

lemma store_value_length [simp]: "length (store_value buf v) = length buf"
  by (simp add: store_value_def)

lemma store_value_nth: "i < length v \<Longrightarrow> i < length buf \<Longrightarrow> store_value buf v ! i = v ! i"
  by (simp add: store_value_def nth_append)

lemma store_value_idem [simp]: "store_value (store_value buf v) v = store_value buf v"
  by (rule nth_equalityI) (auto simp add: store_value_def nth_append)

lemma msb_load_loop_cong:
  "(\<And>j. i \<le> j \<Longrightarrow> j < i + n \<Longrightarrow> a ! j = b ! j) \<Longrightarrow>
   msb_load_loop a i n t = msb_load_loop b i n t"
proof (induction n arbitrary: i t)
  case 0
  then show ?case by simp
next
  case (Suc n)
  have "a ! i = b ! i" using Suc.prems [of i] by simp
  moreover have "msb_load_loop a (Suc i) n t' = msb_load_loop b (Suc i) n t'" for t'
    using Suc.prems by (intro Suc.IH) simp_all
  ultimately show ?case by simp
qed

lemma msb_load_cong:
  "(\<And>j. off \<le> j \<Longrightarrow> j < off + n \<Longrightarrow> a ! j = b ! j) \<Longrightarrow> msb_load a off n = msb_load b off n"
  unfolding msb_load_def by (rule msb_load_loop_cong)

lemma msb_load_2: "msb_load src off 2 = push_bit 8 (ucast (src ! off)) OR ucast (src ! Suc off)"
  by (simp add: msb_load_def)

text \<open>Two bytes decode to less than \<open>2 ^ 16\<close>, so the cast to \<^verbatim>\<open>int\<close> keeps the state.\<close>

lemma msb_load_2_bound: "unat (msb_load src off 2) < 2 ^ 16"
proof -
  have "msb_load src off 2 = take_bit 16 (msb_load src off 2)"
    unfolding msb_load_2 by (rule bit_word_eqI) (auto simp: bit_simps dest: bit_imp_le_length)
  then have "unat (msb_load src off 2) = take_bit 16 (unat (msb_load src off 2))"
    by (metis unsigned_take_bit_eq)
  then show ?thesis
    by (metis take_bit_nat_less_exp)
qed

lemma state_cast_eq:
  assumes "unat k < 2 ^ 16"
  shows "(ucast (msb_load src off 2) :: 32 word) = ucast (k :: 64 word) \<longleftrightarrow> msb_load src off 2 = k"
proof -
  have "unat (ucast (msb_load src off 2) :: 32 word) = unat (msb_load src off 2)"
    using msb_load_2_bound [of src off] by (simp add: unsigned_ucast_eq take_bit_nat_eq_self)
  moreover have "unat (ucast k :: 32 word) = unat k"
    using assms by (simp add: unsigned_ucast_eq take_bit_nat_eq_self)
  ultimately show ?thesis
    by (metis word_unat_eq_iff)
qed

lemma state_cast:
  "(ucast (msb_load src off 2) :: 32 word) = DMF_ST_DUALSTATE \<longleftrightarrow> msb_load src off 2 = 2"
  "(ucast (msb_load src off 2) :: 32 word) = DMF_ST_OFFLINE \<longleftrightarrow> msb_load src off 2 = 3"
  "(ucast (msb_load src off 2) :: 32 word) = DMF_ST_UNMIGRATING \<longleftrightarrow> msb_load src off 2 = 4"
  "(ucast (msb_load src off 2) :: 32 word) = DMF_ST_PARTIAL \<longleftrightarrow> msb_load src off 2 = 6"
  using state_cast_eq [of 2 src off] state_cast_eq [of 3 src off]
    state_cast_eq [of 4 src off] state_cast_eq [of 6 src off]
  by (simp_all add: DMF_ST_DUALSTATE_def DMF_ST_OFFLINE_def DMF_ST_UNMIGRATING_def
      DMF_ST_PARTIAL_def)

text \<open>A fetched value of 22 bytes or more overwrites the whole header in the array.\<close>

lemma store_value_header:
  assumes "length buf = ATTRVAL_SIZE" and "22 \<le> length v"
  shows "store_value buf v ! 0 = v ! 0" and "store_value buf v ! Suc 0 = v ! Suc 0"
    and "msb_load (store_value buf v) 2 2 = msb_load v 2 2"
proof -
  have nth: "store_value buf v ! i = v ! i" if "i < 22" for i
    using that assms by (intro store_value_nth) (simp_all add: ATTRVAL_SIZE_def)
  show "store_value buf v ! 0 = v ! 0" and "store_value buf v ! Suc 0 = v ! Suc 0"
    by (simp_all add: nth)
  show "msb_load (store_value buf v) 2 2 = msb_load v 2 2"
    by (rule msb_load_cong) (simp add: nth)
qed

text \<open>The context after a call that got as far as a successful fetch.\<close>

lemma HsmInitFileContext_fetched:
  assumes "cheap_checks_pass h statp" and "fetch_succeeds h env contextp statp"
  defines "v \<equiv> reply_value (fetch_reply h env contextp statp)"
  defines "c2 \<equiv> contextp\<lparr>candidate := 0, attrval := store_value (attrval contextp) v,
                          attrlen := int (length v)\<rparr>"
  shows "fst (snd (HsmInitFileContext h env contextp statp)) =
           (if attrval c2 ! 0 = 1 \<and>
               (attrval c2 ! 1 = 0 \<and> length v = 22 \<or> attrval c2 ! 1 = 1 \<and> 48 \<le> length v) \<and>
               msb_load (attrval c2) 2 2 \<in> {2, 3, 4, 6}
            then c2\<lparr>candidate := 1, filesize := bs_size statp\<rparr> else c2)"
  using assms(1,2) unfolding v_def c2_def
  by (auto simp add: HsmInitFileContext_def Let_def cheap_checks_pass_def fetch_succeeds_def
      fetch_reply_def made_handle_def state_cast layout FSYS_TYPE_XFS_def
      DMF_ATTR_FORMAT_0_def DMF_ATTR_FORMAT_1_def)

lemma HsmInitFileContext_decision:
  assumes "wf_ctxt contextp"
    and "cheap_checks_pass h statp"
    and "fetch_succeeds h env contextp statp"
  shows "fst (snd (HsmInitFileContext h env contextp statp)) =
           (let v = reply_value (fetch_reply h env contextp statp);
                c2 = contextp\<lparr>candidate := 0, attrval := store_value (attrval contextp) v,
                               attrlen := int (length v)\<rparr>
            in if attr_qualifies v then c2\<lparr>candidate := 1, filesize := bs_size statp\<rparr> else c2)"
proof -
  define v where "v = reply_value (fetch_reply h env contextp statp)"
  have len: "length (attrval contextp) = ATTRVAL_SIZE"
    using assms(1) by (simp add: wf_ctxt_def)
  show ?thesis
  proof (cases "22 \<le> length v")
    case True
    note hdr = store_value_header [OF len True]
    show ?thesis
      unfolding HsmInitFileContext_fetched [OF assms(2,3)] v_def [symmetric] Let_def
      using True by (auto simp add: hdr attr_qualifies_def)
  next
    case False
    then show ?thesis
      unfolding HsmInitFileContext_fetched [OF assms(2,3)] v_def [symmetric] Let_def
      by (auto simp add: attr_qualifies_def)
  qed
qed

lemma example_facts:
  "wf_ctxt (example_ctxt [])"
  "cheap_checks_pass linux_headers example_statp"
  "fetch_succeeds linux_headers (example_env v) c example_statp"
  "reply_value (fetch_reply linux_headers (example_env v) c example_statp) = v"
  "attr_qualifies example_attr0"
  by (simp_all add: wf_ctxt_def example_ctxt_def cheap_checks_pass_def linux_headers_def
      example_statp_def DMF_EV_BITS_def fetch_succeeds_def fetch_reply_def made_handle_def
      example_env_def attr_qualifies_def example_attr0_def msb_load_def)

text \<open>What \<open>msb_load\<close> makes of two bytes, and the state condition on the bytes.\<close>

lemma msb_load_2_bytes:
  "(ucast (msb_load src off 2) :: 8 word) = src ! Suc off"
  "(ucast (drop_bit 8 (msb_load src off 2)) :: 8 word) = src ! off"
  unfolding msb_load_2
  by (rule bit_word_eqI; auto simp: bit_simps dest: bit_imp_le_length)+

lemma unat_msb_load_2:
  "unat (msb_load src off 2) = 256 * unat (src ! off) + unat (src ! Suc off)"
proof -
  define x where "x = msb_load src off 2"
  have lt: "unat x < 2 ^ 16"
    unfolding x_def by (rule msb_load_2_bound)
  have lo: "unat (src ! Suc off) = unat x mod 256"
    unfolding msb_load_2_bytes(1) [of src off, symmetric] x_def [symmetric]
    by (simp add: unsigned_ucast_eq take_bit_eq_mod)
  have "unat (src ! off) = (unat x div 256) mod 256"
    unfolding msb_load_2_bytes(2) [of src off, symmetric] x_def [symmetric]
    by (simp add: unsigned_ucast_eq take_bit_eq_mod drop_bit_eq_div unat_div)
  also have "\<dots> = unat x div 256"
    using lt by simp
  finally have hi: "unat (src ! off) = unat x div 256" .
  show ?thesis
    unfolding x_def [symmetric] lo hi by simp
qed

lemma attr_qualifies_bytes: "attr_qualifies v = header_qualifies v"
proof -
  have "msb_load v 2 2 = k \<longleftrightarrow> unat (msb_load v 2 2) = unat k" for k
    by (simp add: word_unat_eq_iff)
  then have "msb_load v 2 2 \<in> {2, 3, 4, 6} \<longleftrightarrow>
             256 * unat (v ! 2) + unat (v ! 3) \<in> {2, 3, 4, 6}"
    by (simp add: unat_msb_load_2 numeral_3_eq_3 [symmetric])
  then show ?thesis
    unfolding attr_qualifies_def header_qualifies_def by auto
qed

lemma example_facts2:
  "wf_ctxt example_fresh" "wf_ctxt example_stale"
  "candidate example_fresh = 0" "filesize example_fresh = 7"
  "candidate example_stale = 1" "filesize example_stale = 7"
  "bs_size example_statp = 1000"
  "header_qualifies example_attr0"
  "\<not> header_qualifies example_attr5"
  by (simp_all add: wf_ctxt_def example_fresh_def example_stale_def example_ctxt_def
      example_statp_def header_qualifies_def example_attr0_def example_attr5_def)

text \<open>
  Claim C1. When the three cheap checks pass and the attribute fetch succeeds, the call
  sets \<open>candidate\<close> and stores the size of the file from the metadata if and only if the
  fetched bytes qualify (\<open>header_qualifies\<close>: the supported filesystem type in byte 0,
  format 0 in byte 1 with exactly 22 bytes or format 1 with at least 48, and the two
  bytes at offsets 2 and 3, most significant first, giving a state among 2, 3, 4 and 6).
  Otherwise \<open>candidate\<close> is 0 and the stored size is left as it was.
\<close>

theorem HsmInitFileContext_classifies:
  assumes "wf_ctxt contextp"
    and "cheap_checks_pass h statp"
    and "fetch_succeeds h env contextp statp"
  shows "let c' = fst (snd (HsmInitFileContext h env contextp statp)) in
         if header_qualifies (reply_value (fetch_reply h env contextp statp))
         then candidate c' = 1 \<and> filesize c' = bs_size statp
         else candidate c' = 0 \<and> filesize c' = filesize contextp"
  by (simp add: HsmInitFileContext_decision [OF assms] Let_def attr_qualifies_bytes)

theorem HsmInitFileContext_classifies_witness:
  "wf_ctxt example_fresh \<and> wf_ctxt example_stale \<and>
   cheap_checks_pass linux_headers example_statp \<and>
   fetch_succeeds linux_headers (example_env example_attr0) example_fresh example_statp \<and>
   fetch_succeeds linux_headers (example_env example_attr5) example_stale example_statp \<and>
   header_qualifies example_attr0 \<and>
   candidate example_fresh = 0 \<and> filesize example_fresh = 7 \<and>
   candidate (fst (snd (HsmInitFileContext linux_headers (example_env example_attr0)
                          example_fresh example_statp))) = 1 \<and>
   filesize (fst (snd (HsmInitFileContext linux_headers (example_env example_attr0)
                          example_fresh example_statp))) = 1000 \<and>
   \<not> header_qualifies example_attr5 \<and>
   candidate example_stale = 1 \<and> filesize example_stale = 7 \<and>
   candidate (fst (snd (HsmInitFileContext linux_headers (example_env example_attr5)
                          example_stale example_statp))) = 0 \<and>
   filesize (fst (snd (HsmInitFileContext linux_headers (example_env example_attr5)
                          example_stale example_statp))) = 7"
  using HsmInitFileContext_classifies [of example_fresh linux_headers example_statp
      "example_env example_attr0"]
    HsmInitFileContext_classifies [of example_stale linux_headers example_statp
      "example_env example_attr5"]
  by (simp add: example_facts example_facts2 Let_def)

text \<open>
  Claim C4. For metadata that is not a regular file, or has the has-attributes bit clear,
  or has none of the four event bits of \<open>DMF_EV_BITS\<close> (destroy, read, write, truncate)
  set, the call leaves \<open>candidate = 0\<close>, changes nothing else and makes no external call:
  neither a handle is made nor an attribute fetched.
\<close>

theorem HsmInitFileContext_cheap_checks:
  assumes "ucast (bs_mode statp) AND S_IFMT h \<noteq> S_IFREG h \<or>
           bs_xflags statp AND XFS_XFLAG_HASATTR h = 0 \<or>
           bs_dmevmask statp AND DMF_EV_BITS h = 0"
  shows "HsmInitFileContext h env contextp statp = (0, contextp\<lparr>candidate := 0\<rparr>, [])"
  using assms by (auto simp add: HsmInitFileContext_def Let_def)

theorem HsmInitFileContext_cheap_checks_witness:
  "ucast (bs_mode example_dir) AND S_IFMT linux_headers \<noteq> S_IFREG linux_headers \<and>
   HsmInitFileContext linux_headers (example_env example_attr0) (example_ctxt []) example_dir =
     (0, (example_ctxt [])\<lparr>candidate := 0\<rparr>, [])"
  using HsmInitFileContext_cheap_checks [of example_dir linux_headers
      "example_env example_attr0" "example_ctxt []"]
  by (simp add: example_dir_def example_statp_def linux_headers_def)

text \<open>
  Claim C9. Whatever the context held before (also \<open>candidate = 1\<close> from a previous
  file), a call that disqualifies the file leaves \<open>candidate = 0\<close>: when a cheap check
  fails, when no handle can be made, when the fetch fails, or when the fetched bytes do
  not qualify (filesystem type, format and length, or state).
\<close>

theorem HsmInitFileContext_disqualified:
  assumes "wf_ctxt contextp"
    and "\<not> cheap_checks_pass h statp \<or>
         fst (made_handle env contextp statp) \<noteq> 0 \<or>
         reply_ret (fetch_reply h env contextp statp) \<noteq> 0 \<or>
         reply_am_error (fetch_reply h env contextp statp) \<noteq> 0 \<or>
         \<not> attr_qualifies (reply_value (fetch_reply h env contextp statp))"
  shows "candidate (fst (snd (HsmInitFileContext h env contextp statp))) = 0"
proof (cases "cheap_checks_pass h statp \<and> fetch_succeeds h env contextp statp")
  case True
  with assms(2) have "\<not> attr_qualifies (reply_value (fetch_reply h env contextp statp))"
    by (auto simp add: fetch_succeeds_def)
  with True show ?thesis
    by (simp add: HsmInitFileContext_decision [OF assms(1)] Let_def)
next
  case False
  then show ?thesis
    by (auto simp add: HsmInitFileContext_def Let_def cheap_checks_pass_def
        fetch_succeeds_def fetch_reply_def made_handle_def)
qed

theorem HsmInitFileContext_disqualified_witness:
  "candidate (example_ctxt []) = 1 \<and> wf_ctxt (example_ctxt []) \<and>
   reply_ret (fetch_reply linux_headers failing_env (example_ctxt []) example_statp) \<noteq> 0 \<and>
   candidate (fst (snd (HsmInitFileContext linux_headers failing_env
                          (example_ctxt []) example_statp))) = 0"
  using HsmInitFileContext_disqualified [of "example_ctxt []" linux_headers example_statp
      failing_env]
  by (simp add: example_facts fetch_reply_def failing_env_def) (simp add: example_ctxt_def)

text \<open>
  Claim C10. The call returns 0 for every context, every metadata and every answer of
  the environment: a disqualified file shows in \<open>candidate\<close> only.
\<close>

theorem HsmInitFileContext_returns_0:
  "fst (HsmInitFileContext h env contextp statp) = 0"
  by (simp add: HsmInitFileContext_def Let_def)

theorem HsmInitFileContext_returns_0_witness:
  "fst (HsmInitFileContext linux_headers failing_env (example_ctxt []) example_dir) = 0"
  using HsmInitFileContext_returns_0 [of linux_headers failing_env "example_ctxt []" example_dir]
  by simp

section \<open>Filtering the existing attribute\<close>

text \<open>
  Claim C5, as it is stated, fails: for a context that is not a candidate the routine
  answers success with \<^verbatim>\<open>*skip_entry\<close> unset before it looks at the name, the namespace
  or the size. Here the name is the DMF attribute's, the namespace is root and the size
  is 10.
\<close>

theorem HsmFilterExistingAttribute_noncandidate_counterexample:
  "candidate ((example_ctxt [])\<lparr>candidate := 0\<rparr>) = 0 \<and> unat (10 :: 32 word) < 22 \<and>
   HsmFilterExistingAttribute linux_headers ((example_ctxt [])\<lparr>candidate := 0\<rparr>)
     DMF_ATTR_NAME 10 (ATTR_ROOT linux_headers) 0 = (1, 0)"
  by (simp add: HsmFilterExistingAttribute_def)

text \<open>
  Claim C5, amended. For every context that is a candidate, a call with the name of the
  DMF attribute, the root namespace and a value size below the 22 bytes of the format 0
  header returns 0, the structural failure, with \<^verbatim>\<open>*skip_entry\<close> unset. For every
  context that is no candidate, a call with any name, value size and namespace returns
  1, success, with \<^verbatim>\<open>*skip_entry\<close> unset.
\<close>

theorem HsmFilterExistingAttribute_corrupt:
  "(candidate hsm_f_ctxtp \<noteq> 0 \<and> unat valuesz < 22 \<longrightarrow>
      HsmFilterExistingAttribute h hsm_f_ctxtp DMF_ATTR_NAME valuesz (ATTR_ROOT h) skip_entry
        = (0, 0)) \<and>
   (candidate hsm_f_ctxtp = 0 \<longrightarrow>
      HsmFilterExistingAttribute h hsm_f_ctxtp namep valuesz' flag skip_entry = (1, 0))"
  by (simp add: HsmFilterExistingAttribute_def layout)

theorem HsmFilterExistingAttribute_corrupt_witness:
  "candidate (example_ctxt []) \<noteq> 0 \<and> unat (10 :: 32 word) < 22 \<and>
   HsmFilterExistingAttribute linux_headers (example_ctxt []) DMF_ATTR_NAME 10
     (ATTR_ROOT linux_headers) 1 = (0, 0) \<and>
   candidate example_fresh = 0 \<and>
   HsmFilterExistingAttribute linux_headers example_fresh ''user.note'' 4 0 1 = (1, 0)"
  using HsmFilterExistingAttribute_corrupt [of "example_ctxt []" 10 linux_headers 1]
    HsmFilterExistingAttribute_corrupt [of example_fresh _ linux_headers 1 "''user.note''" 4 0]
  by (simp add: example_ctxt_def example_fresh_def)

section \<open>The extent map\<close>

lemma uint_eq_sint_nonneg:
  fixes w :: "64 word"
  assumes "0 \<le> sint w"
  shows "uint w = sint w" and "uint w < 2 ^ 63"
proof -
  have lt: "sint w < 2 ^ 63" using sint_lt [of w] by simp
  then have "take_bit 64 (sint w) = sint w"
    using assms by (intro take_bit_int_eq_self) simp_all
  then show "uint w = sint w" using uint_sint [of w] by simp
  with lt show "uint w < 2 ^ 63" by simp
qed

lemma sint_eq_uint_small:
  fixes w :: "64 word"
  assumes "uint w < 2 ^ 63"
  shows "sint w = uint w"
proof -
  have "- (2 ^ 63) \<le> uint w"
    by (rule order_trans [of _ 0]) simp_all
  then have "signed_take_bit 63 (uint w) = uint w"
    using assms by (intro signed_take_bit_int_eq_self) simp_all
  then show ?thesis using sint_uint [of w] by simp
qed

lemma ceil_le_self:
  fixes a :: int
  assumes "0 \<le> a"
  shows "(a + 2 ^ s - 1) div 2 ^ s \<le> a"
proof (cases "a = 0")
  case True
  then show ?thesis by simp
next
  case False
  with assms have "0 \<le> (a - 1) * (2 ^ s - 1)"
    by (intro mult_nonneg_nonneg) simp_all
  then have "a + 2 ^ s - 1 \<le> a * 2 ^ s"
    by (simp add: algebra_simps)
  then have "(a + 2 ^ s - 1) div 2 ^ s \<le> (a * 2 ^ s) div 2 ^ s"
    by (intro zdiv_mono1) simp_all
  then show ?thesis by simp
qed

lemma BTOBB_ceil:
  assumes "0 \<le> sint bytes" and "BBSHIFT h < 64"
  shows "uint (BTOBB h bytes) = ceil_to_block (BBSHIFT h) (sint bytes)"
    and "uint (BTOBB h bytes) < 2 ^ 63"
proof -
  define s where "s = BBSHIFT h"
  have s: "s < 64" using assms(2) by (simp add: s_def)
  note b = uint_eq_sint_nonneg [OF assms(1)]
  have ps: "(2::int) ^ s \<le> 2 ^ 63"
    using s by (intro power_increasing) simp_all
  have "take_bit 64 ((2::int) ^ s) = 2 ^ s"
    using ps by (intro take_bit_int_eq_self) simp_all
  then have "uint (push_bit s 1 :: 64 word) = 2 ^ s"
    unfolding unsigned_push_bit_eq by (simp add: push_bit_eq_mult)
  then have p: "uint (2 ^ s :: 64 word) = 2 ^ s"
    by simp
  have one: "(1::int) \<le> 2 ^ s" by simp
  have "uint (bytes + push_bit s 1 - 1) = (uint bytes + 2 ^ s - 1) mod 2 ^ 64"
    by (simp add: uint_word_ariths p mod_simps)
  also have "\<dots> = uint bytes + 2 ^ s - 1"
  proof (rule mod_pos_pos_trivial)
    show "0 \<le> uint bytes + 2 ^ s - 1"
      using one uint_ge_0 [of bytes] by linarith
    show "uint bytes + 2 ^ s - 1 < 2 ^ 64"
      using b(2) ps by simp
  qed
  finally have sum: "uint (bytes + push_bit s 1 - 1) = sint bytes + 2 ^ s - 1"
    using b by simp
  then show eq: "uint (BTOBB h bytes) = ceil_to_block (BBSHIFT h) (sint bytes)"
    by (simp add: BTOBB_def ceil_to_block_def s_def [symmetric] drop_bit_eq_div
        uint_div_distrib p)
  have "ceil_to_block s (sint bytes) \<le> sint bytes"
    unfolding ceil_to_block_def using assms(1) by (rule ceil_le_self)
  with eq b show "uint (BTOBB h bytes) < 2 ^ 63"
    by (simp add: s_def)
qed

lemma remaining_blocks_exact:
  assumes "0 \<le> sint (filesize contextp)" and "0 \<le> sint (bmv_offset b1)" and "BBSHIFT h < 64"
  shows "remaining_blocks h contextp b1 =
           ceil_to_block (BBSHIFT h) (sint (filesize contextp)) - sint (bmv_offset b1)"
proof -
  note c = BTOBB_ceil [OF assms(1,3)]
  have sc: "sint (BTOBB h (filesize contextp)) = uint (BTOBB h (filesize contextp))"
    using c(2) by (rule sint_eq_uint_small)
  have "0 \<le> uint (BTOBB h (filesize contextp))" by simp
  moreover have "sint (bmv_offset b1) < 2 ^ 63"
    using sint_lt [of "bmv_offset b1"] by simp
  ultimately have
    "- (2 ^ 63) \<le> uint (BTOBB h (filesize contextp)) - sint (bmv_offset b1)"
    "uint (BTOBB h (filesize contextp)) - sint (bmv_offset b1) < 2 ^ 63"
    using c(2) assms(2) by linarith+
  then have
    "signed_take_bit 63 (uint (BTOBB h (filesize contextp)) - sint (bmv_offset b1)) =
       uint (BTOBB h (filesize contextp)) - sint (bmv_offset b1)"
    by (intro signed_take_bit_int_eq_self) simp_all
  then show ?thesis
    by (simp add: remaining_blocks_def sint_word_diff sc c(1))
qed

text \<open>
  Claim C2. The call always returns 1. Where the count slot \<open>bmv_entries\<close> of the first
  element is zero or less, or the context is no candidate, the array is untouched.
  Otherwise, with \<open>remaining_blocks\<close> the 64-bit signed value of
  \<open>BTOBB (filesize) - bmv_offset\<close> of the second element: if it is positive the count slot
  becomes 1 and the second element a hole (\<open>bmv_block = - 1\<close>) of that length; if not, the
  count slot becomes 0. For a size and an offset that are not negative the 64-bit value
  is the one on unbounded integers, \<open>ceil_to_block\<close> of the size minus the offset.
\<close>

theorem HsmModifyExtentMap_projects:
  "HsmModifyExtentMap h contextp (b0 # b1 # bs) =
     Some (1,
       if sint (bmv_entries b0) \<le> 0 \<or> candidate contextp = 0 then b0 # b1 # bs
       else if 0 < remaining_blocks h contextp b1
         then b0\<lparr>bmv_entries := 1\<rparr> #
              b1\<lparr>bmv_block := - 1,
                 bmv_length := word_of_int (remaining_blocks h contextp b1)\<rparr> # bs
         else b0\<lparr>bmv_entries := 0\<rparr> # b1 # bs) \<and>
   (sint (bmv_entries b0) \<le> 0 \<or> candidate contextp = 0 \<longrightarrow>
      HsmModifyExtentMap h contextp (b0 # rest) = Some (1, b0 # rest)) \<and>
   (0 \<le> sint (filesize contextp) \<and> 0 \<le> sint (bmv_offset b1) \<and> BBSHIFT h < 64 \<longrightarrow>
      remaining_blocks h contextp b1 =
        ceil_to_block (BBSHIFT h) (sint (filesize contextp)) - sint (bmv_offset b1))"
proof -
  have "0 \<le> sint (filesize contextp) \<and> 0 \<le> sint (bmv_offset b1) \<and> BBSHIFT h < 64 \<longrightarrow>
      remaining_blocks h contextp b1 =
        ceil_to_block (BBSHIFT h) (sint (filesize contextp)) - sint (bmv_offset b1)"
    by (simp add: remaining_blocks_exact)
  moreover have "sint (bmv_entries b0) \<le> 0 \<or> candidate contextp = 0 \<longrightarrow>
      HsmModifyExtentMap h contextp (b0 # rest) = Some (1, b0 # rest)"
    by (auto simp add: HsmModifyExtentMap_def)
  ultimately show ?thesis
    by (simp add: HsmModifyExtentMap_def remaining_blocks_def Let_def)
qed

theorem HsmModifyExtentMap_projects_witness:
  "0 \<le> sint (filesize (example_ctxt [])) \<and> 0 \<le> sint (bmv_offset example_b1) \<and>
   BBSHIFT linux_headers < 64 \<and>
   remaining_blocks linux_headers (example_ctxt []) example_b1 = 2 \<and>
   HsmModifyExtentMap linux_headers (example_ctxt []) [example_b0, example_b1] =
     Some (1, [example_b0\<lparr>bmv_entries := 1\<rparr>, example_b1\<lparr>bmv_block := - 1, bmv_length := 2\<rparr>])"
  using HsmModifyExtentMap_projects [of linux_headers "example_ctxt []" example_b0 example_b1
      "[]" "[]"]
  by (simp add: example_ctxt_def example_b0_def example_b1_def linux_headers_def
      ceil_to_block_def)

section \<open>The implicit file context\<close>

lemma HsmInitFileContext_calls:
  "snd (snd (HsmInitFileContext h env c statp)) =
     (if \<not> cheap_checks_pass h statp then []
      else if fst (made_handle env c statp) \<noteq> 0
      then [Call_dm_make_handle (fsid (fsys c)) (bs_ino statp) (bs_gen statp)]
      else [Call_dm_make_handle (fsid (fsys c)) (bs_ino statp) (bs_gen statp),
            Call_attr_multi_by_handle (snd (made_handle env c statp))
              \<lparr> am_opcode = ATTR_OP_GET h, am_error = 0, am_attrname = DMF_ATTR_NAME,
                am_length = int ATTRVAL_SIZE, am_flags = ATTR_ROOT h \<rparr>,
            Call_free_handle (snd (made_handle env c statp))])"
  by (simp add: HsmInitFileContext_def Let_def cheap_checks_pass_def made_handle_def)

lemma HsmInitFileContext_candidate:
  assumes "wf_ctxt c"
  shows "candidate (fst (snd (HsmInitFileContext h env c statp))) =
           (if cheap_checks_pass h statp \<and> fetch_succeeds h env c statp \<and>
               attr_qualifies (reply_value (fetch_reply h env c statp))
            then 1 else 0)"
proof (cases "cheap_checks_pass h statp \<and> fetch_succeeds h env c statp")
  case True
  then show ?thesis
    by (simp add: HsmInitFileContext_decision [OF assms] Let_def)
next
  case False
  then show ?thesis
    by (auto simp add: HsmInitFileContext_def Let_def cheap_checks_pass_def
        fetch_succeeds_def fetch_reply_def made_handle_def)
qed

lemma HsmInitFileContext_candidate_filesize:
  assumes "wf_ctxt c" and "candidate (fst (snd (HsmInitFileContext h env c statp))) \<noteq> 0"
  shows "filesize (fst (snd (HsmInitFileContext h env c statp))) = bs_size statp"
proof -
  from assms have "cheap_checks_pass h statp \<and> fetch_succeeds h env c statp \<and>
      attr_qualifies (reply_value (fetch_reply h env c statp))"
    by (simp add: HsmInitFileContext_candidate split: if_splits)
  then show ?thesis
    by (simp add: HsmInitFileContext_decision [OF assms(1)] Let_def)
qed

lemma fsys_only:
  assumes "fsys c1 = fsys c2"
  shows "made_handle env c1 statp = made_handle env c2 statp"
    and "fetch_reply h env c1 statp = fetch_reply h env c2 statp"
    and "fetch_succeeds h env c1 statp = fetch_succeeds h env c2 statp"
  using assms by (simp_all add: made_handle_def fetch_reply_def fetch_succeeds_def)

text \<open>
  Claim C6. \<open>HsmEstimateFileOffset\<close>, with its file context on the stack, signals what
  the explicit sequence signals (\<open>explicit_estimate\<close>: allocate, classify, query the
  context) and makes the same external calls, whatever the indeterminate contents of
  the local context and of the allocated block are. The estimate is the size of the
  file from the metadata when the classification makes the file a candidate, for any
  \<open>bytecount\<close>, and none otherwise (return value 0, \<^verbatim>\<open>*byteoffset\<close> untouched).
\<close>

theorem HsmEstimateFileOffset_explicit:
  assumes "wf_ctxt blk" and "wf_ctxt stack"
  shows "explicit_estimate h env contextp statp (Some blk) =
           Some (estimate_of
             (HsmEstimateFileOffset h env contextp statp bytecount byteoffset stack)) \<and>
         HsmEstimateFileOffset h env contextp statp bytecount byteoffset stack =
           (let r = HsmInitFileContext h env (blk\<lparr>fsys := contextp, candidate := 0\<rparr>) statp
            in if candidate (fst (snd r)) \<noteq> 0 then (1, bs_size statp, snd (snd r))
               else (0, byteoffset, snd (snd r)))"
proof -
  define a where "a = blk\<lparr>fsys := contextp, candidate := 0\<rparr>"
  define b where "b = stack\<lparr>fsys := contextp, candidate := 0\<rparr>"
  have wf: "wf_ctxt a" "wf_ctxt b" and f: "fsys a = fsys b"
    using assms by (simp_all add: a_def b_def wf_ctxt_def)
  have cand: "candidate (fst (snd (HsmInitFileContext h env a statp))) =
              candidate (fst (snd (HsmInitFileContext h env b statp)))"
    by (simp only: HsmInitFileContext_candidate [OF wf(1)] HsmInitFileContext_candidate [OF wf(2)]
        fsys_only [OF f])
  have calls: "snd (snd (HsmInitFileContext h env a statp)) =
               snd (snd (HsmInitFileContext h env b statp))"
    by (simp only: HsmInitFileContext_calls fsys_only [OF f] f)
  have rc: "fst (HsmInitFileContext h env c statp) = 0" for c
    by (simp add: HsmInitFileContext_def Let_def)
  have size: "candidate (fst (snd (HsmInitFileContext h env a statp))) \<noteq> 0 \<Longrightarrow>
              filesize (fst (snd (HsmInitFileContext h env a statp))) = bs_size statp"
    by (rule HsmInitFileContext_candidate_filesize [OF wf(1)])
  have est: "HsmEstimateFileOffset h env contextp statp bytecount byteoffset stack =
          (if candidate (fst (snd (HsmInitFileContext h env a statp))) \<noteq> 0
           then (1, bs_size statp, snd (snd (HsmInitFileContext h env a statp)))
           else (0, byteoffset, snd (snd (HsmInitFileContext h env a statp))))"
    by (simp add: HsmEstimateFileOffset_def Let_def b_def [symmetric] rc cand calls)
  have "explicit_estimate h env contextp statp (Some blk) =
          Some (if candidate (fst (snd (HsmInitFileContext h env a statp))) \<noteq> 0
                then Some (bs_size statp) else None,
                snd (snd (HsmInitFileContext h env a statp)))"
    using size
    by (simp add: explicit_estimate_def HsmAllocateFileContext_def Let_def a_def [symmetric] rc)
  then show ?thesis
    by (simp add: est estimate_of_def Let_def a_def [symmetric])
qed

theorem HsmEstimateFileOffset_explicit_witness:
  "wf_ctxt (example_ctxt []) \<and> wf_ctxt (example_ctxt example_attr1) \<and>
   explicit_estimate linux_headers (example_env example_attr0) \<lparr> dumpversion = 1, fsid = 7 \<rparr>
       example_statp (Some (example_ctxt [])) =
     Some (estimate_of
       (HsmEstimateFileOffset linux_headers (example_env example_attr0)
          \<lparr> dumpversion = 1, fsid = 7 \<rparr> example_statp 512 0 (example_ctxt example_attr1))) \<and>
   fst (HsmEstimateFileOffset linux_headers (example_env example_attr0)
          \<lparr> dumpversion = 1, fsid = 7 \<rparr> example_statp 512 0 (example_ctxt example_attr1)) = 1 \<and>
   fst (snd (HsmEstimateFileOffset linux_headers (example_env example_attr0)
          \<lparr> dumpversion = 1, fsid = 7 \<rparr> example_statp 512 0 (example_ctxt example_attr1))) = 1000"
proof -
  have wf: "wf_ctxt (example_ctxt [])" "wf_ctxt (example_ctxt example_attr1)"
    by (simp_all add: wf_ctxt_def example_ctxt_def example_attr1_def ATTRVAL_SIZE_def)
  have wf': "wf_ctxt ((example_ctxt [])\<lparr>fsys := \<lparr> dumpversion = 1, fsid = 7 \<rparr>, candidate := 0\<rparr>)"
    using wf(1) by (simp add: wf_ctxt_def)
  show ?thesis
    using HsmEstimateFileOffset_explicit [OF wf, of linux_headers "example_env example_attr0"
        "\<lparr> dumpversion = 1, fsid = 7 \<rparr>" example_statp 512 0]
    by (simp add: wf Let_def HsmInitFileContext_candidate [OF wf'] example_facts)
      (simp add: example_statp_def)
qed

section \<open>The new attribute\<close>

lemma nth_msb_store_loop_other:
  "j < off \<or> off + n \<le> j \<Longrightarrow> msb_store_loop d off v n ! j = d ! j"
  by (induction n arbitrary: d v) auto

lemma nth_msb_store_other:
  "j < off \<or> off + n \<le> j \<Longrightarrow> msb_store d off v n ! j = d ! j"
  by (simp add: msb_store_def nth_msb_store_loop_other)

lemma msb_load_msb_store_other:
  "off' + n' \<le> off \<or> off + n \<le> off' \<Longrightarrow>
   msb_load (msb_store d off v n) off' n' = msb_load d off' n'"
  by (rule msb_load_cong) (auto simp add: nth_msb_store_other)

lemma msb_load_list_update_other:
  "i < off \<or> off + n \<le> i \<Longrightarrow> msb_load (d[i := x]) off n = msb_load d off n"
  by (rule msb_load_cong) auto

lemma msb_load_take:
  "off + n \<le> m \<Longrightarrow> msb_load (take m d) off n = msb_load d off n"
  by (rule msb_load_cong) simp

lemma nth_msb_store:
  assumes "off + n \<le> length d"
  shows "msb_store d off v n ! j =
           (if off \<le> j \<and> j < off + n then be_bytes v n ! (j - off) else d ! j)"
  using assms by (auto simp add: msb_store_eq nth_append)

text \<open>
  Claim C3. For a candidate context, cursor 0 and the root namespace the routine returns
  the name of the DMF attribute and a value whose global state is offline (3). When the
  attribute in the context is of format 1 with a site tag that is not zero, the value
  has the 48 bytes of the format 1 header and one region, keeps format 1 and the site
  tag, has region count 1, and its region has offset 0, the size of the file as cached
  in the context, state offline (3), event flags 7 and flag bits 0. In every other case
  the value has the 22 bytes of format 0 and its version byte is 0.
\<close>

theorem HsmAddNewAttribute_value:
  assumes "wf_ctxt hsm_f_ctxtp" and "candidate hsm_f_ctxtp \<noteq> 0"
  shows "let r = HsmAddNewAttribute h hsm_f_ctxtp 0 (ATTR_ROOT h) out;
             v = valuepp (snd (snd r))
         in fst r = 1 \<and> namepp (snd (snd r)) = Some DMF_ATTR_NAME \<and>
            valueszp (snd (snd r)) = of_nat (length v) \<and>
            msb_load v 2 2 = 3 \<and> v ! 0 = attrval hsm_f_ctxtp ! 0 \<and>
            (if attrval hsm_f_ctxtp ! 1 = 1 \<and> msb_load (attrval hsm_f_ctxtp) 22 4 \<noteq> 0
             then length v = 28 + 20 \<and> v ! 1 = 1 \<and>
                  msb_load v 22 4 = msb_load (attrval hsm_f_ctxtp) 22 4 \<and>
                  msb_load v 26 2 = 1 \<and>
                  msb_load v 28 8 = 0 \<and>
                  msb_load v 36 8 = filesize hsm_f_ctxtp \<and>
                  msb_load v 44 2 = 3 \<and> v ! 46 = 7 \<and> v ! 47 = 0
             else length v = 22 \<and> v ! 1 = 0)"
proof -
  have len: "length (attrval hsm_f_ctxtp) = 5000"
    using assms(1) by (simp add: wf_ctxt_def ATTRVAL_SIZE_def)
  have tb: "take_bit 16 (3 :: 64 word) = 3" "take_bit 16 (1 :: 64 word) = 1"
    "take_bit 64 w = w" for w :: "64 word"
    by (simp_all add: take_bit_word_eq_self)
  show ?thesis
    using assms(2)
    by (simp add: HsmAddNewAttribute_def Let_def layout len DMF_ATTR_FORMAT_0_def
        DMF_ATTR_FORMAT_1_def DMF_ST_OFFLINE_def DMF_MR_FLAGS_def
        msb_load_take msb_load_msb_store msb_load_msb_store_other msb_load_list_update_other
        nth_msb_store_other tb)
qed

lemma example_attr1_facts:
  "wf_ctxt (example_ctxt example_attr1)"
  "candidate (example_ctxt example_attr1) \<noteq> 0"
  "attrval (example_ctxt example_attr1) ! 1 = 1"
  "msb_load (attrval (example_ctxt example_attr1)) 22 4 = 5"
  "filesize (example_ctxt example_attr1) = 1000"
  by (simp_all add: wf_ctxt_def example_ctxt_def example_attr1_def ATTRVAL_SIZE_def msb_load_def)

lemma example_classified_facts:
  "wf_ctxt example_classified"
  "candidate example_classified \<noteq> 0"
  "attrval example_classified ! 1 = 1"
  "msb_load (attrval example_classified) 22 4 = 5"
  "filesize example_classified = 1000"
proof -
  have q: "attr_qualifies example_attr1"
    by (simp add: attr_qualifies_def example_attr1_def msb_load_def)
  have len: "length (attrval (example_ctxt [])) = ATTRVAL_SIZE"
    using example_facts(1) by (simp add: wf_ctxt_def)
  have c: "example_classified =
      (example_ctxt [])\<lparr>candidate := 1,
         attrval := store_value (attrval (example_ctxt [])) example_attr1,
         attrlen := 48, filesize := 1000\<rparr>"
    unfolding example_classified_def
    by (simp add: HsmInitFileContext_decision [OF example_facts(1,2,3)] Let_def
        example_facts(4) q)
      (simp add: example_attr1_def example_statp_def)
  have nth: "store_value (attrval (example_ctxt [])) example_attr1 ! i = example_attr1 ! i"
    if "i < 48" for i
    using that len by (intro store_value_nth) (simp_all add: example_attr1_def ATTRVAL_SIZE_def)
  show "wf_ctxt example_classified"
    by (simp add: c wf_ctxt_def len)
  show "candidate example_classified \<noteq> 0" "filesize example_classified = 1000"
    by (simp_all add: c)
  show "attrval example_classified ! 1 = 1"
    by (simp add: c nth) (simp add: example_attr1_def)
  have "msb_load (attrval example_classified) 22 4 = msb_load example_attr1 22 4"
    unfolding c by (rule msb_load_cong) (simp add: nth)
  then show "msb_load (attrval example_classified) 22 4 = 5"
    by (simp add: example_attr1_def msb_load_def)
qed

theorem HsmAddNewAttribute_value_witness:
  "wf_ctxt example_classified \<and> candidate example_classified \<noteq> 0 \<and>
   attrval example_classified ! 1 = 1 \<and>
   msb_load (attrval example_classified) 22 4 \<noteq> 0 \<and>
   length (valuepp (snd (snd (HsmAddNewAttribute linux_headers example_classified 0
       (ATTR_ROOT linux_headers) \<lparr> namepp = None, valuepp = [], valueszp = 0 \<rparr>)))) = 48 \<and>
   msb_load (valuepp (snd (snd (HsmAddNewAttribute linux_headers example_classified 0
       (ATTR_ROOT linux_headers) \<lparr> namepp = None, valuepp = [], valueszp = 0 \<rparr>)))) 36 8 = 1000 \<and>
   msb_load (valuepp (snd (snd (HsmAddNewAttribute linux_headers example_classified 0
       (ATTR_ROOT linux_headers) \<lparr> namepp = None, valuepp = [], valueszp = 0 \<rparr>)))) 44 2 = 3 \<and>
   msb_load (valuepp (snd (snd (HsmAddNewAttribute linux_headers example_classified 0
       (ATTR_ROOT linux_headers) \<lparr> namepp = None, valuepp = [], valueszp = 0 \<rparr>)))) 2 2 = 3"
proof -
  have c: "(attrval example_classified ! 1 = 1 \<and>
            msb_load (attrval example_classified) 22 4 \<noteq> 0) = True"
    by (simp only: example_classified_facts) simp
  note t = HsmAddNewAttribute_value [OF example_classified_facts(1,2), of linux_headers
      "\<lparr> namepp = None, valuepp = [], valueszp = 0 \<rparr>", unfolded Let_def c if_True]
  from t show ?thesis
    by (simp only: example_classified_facts) simp
qed

section \<open>Repeated calls\<close>

lemma HsmInitFileContext_idem:
  "HsmInitFileContext h env (fst (snd (HsmInitFileContext h env contextp statp))) statp =
     HsmInitFileContext h env contextp statp"
  by (simp add: HsmInitFileContext_def Let_def)

lemma HsmAddNewAttribute_idem:
  assumes "wf_ctxt c"
  shows "HsmAddNewAttribute h (fst (snd (HsmAddNewAttribute h c cursor flag out))) cursor flag
           (snd (snd (HsmAddNewAttribute h c cursor flag out))) =
         HsmAddNewAttribute h c cursor flag out"
proof (cases "candidate c = 0 \<or> flag \<noteq> ATTR_ROOT h \<or> cursor > 0")
  case True
  then have "HsmAddNewAttribute h d cursor flag o' = (1, d, o'\<lparr>namepp := None\<rparr>)"
    if "candidate d = candidate c" for d o'
    using that by (auto simp add: HsmAddNewAttribute_def Let_def)
  then show ?thesis by simp
next
  case False
  define fs where "fs = filesize c"
  define F1 :: "u_char list \<Rightarrow> u_char list" where
    "F1 a = msb_store ((msb_store (msb_store (msb_store (msb_store a 26 1 2) 28 0 8) 36 fs 8)
               44 3 2)[46 := 7, 47 := 0]) 2 3 2" for a
  define F0 :: "u_char list \<Rightarrow> u_char list" where
    "F0 a = msb_store (a[1 := 0]) 2 3 2" for a
  have len: "length (attrval c) = 5000"
    using assms by (simp add: wf_ctxt_def ATTRVAL_SIZE_def)
  have r: "HsmAddNewAttribute h d cursor flag o' =
      (if attrval d ! 1 = 1 \<and> msb_load (attrval d) 22 4 \<noteq> 0
       then (1, d\<lparr>attrlen := 48, attrval := F1 (attrval d)\<rparr>,
             \<lparr> namepp = Some DMF_ATTR_NAME, valuepp = take 48 (F1 (attrval d)), valueszp = 48 \<rparr>)
       else (1, d\<lparr>attrlen := 22, attrval := F0 (attrval d)\<rparr>,
             \<lparr> namepp = Some DMF_ATTR_NAME, valuepp = take 22 (F0 (attrval d)), valueszp = 22 \<rparr>))"
    if "candidate d = candidate c" and "filesize d = fs" for d o'
    using that False
    by (simp add: HsmAddNewAttribute_def Let_def layout F1_def F0_def DMF_ATTR_FORMAT_0_def
        DMF_ATTR_FORMAT_1_def DMF_ST_OFFLINE_def DMF_MR_FLAGS_def)
  have F1_idem: "F1 (F1 a) = F1 a" if "length a = 5000" for a
    using that
    by (intro nth_equalityI) (simp_all add: F1_def nth_msb_store nth_list_update)
  have F0_idem: "F0 (F0 a) = F0 a" if "length a = 5000" for a
    using that
    by (intro nth_equalityI) (simp_all add: F0_def nth_msb_store nth_list_update)
  have F1_keeps: "F1 a ! Suc 0 = a ! Suc 0" "msb_load (F1 a) 22 4 = msb_load a 22 4" for a
    by (simp_all add: F1_def nth_msb_store_other msb_load_msb_store_other
        msb_load_list_update_other)
  have F0_version: "F0 a ! Suc 0 = 0" if "length a = 5000" for a
    using that by (simp add: F0_def nth_msb_store_other)
  show ?thesis
    by (simp add: r fs_def [symmetric] F1_idem F0_idem F1_keeps F0_version len)
qed

lemma HsmInitFileContext_filesize:
  assumes "wf_ctxt c"
  shows "filesize (fst (snd (HsmInitFileContext h env c statp))) =
           (if candidate (fst (snd (HsmInitFileContext h env c statp))) \<noteq> 0
            then bs_size statp else filesize c)"
proof (cases "cheap_checks_pass h statp \<and> fetch_succeeds h env c statp")
  case True
  then show ?thesis
    by (simp add: HsmInitFileContext_decision [OF assms] Let_def)
next
  case False
  then show ?thesis
    by (auto simp add: HsmInitFileContext_def Let_def cheap_checks_pass_def
        fetch_succeeds_def fetch_reply_def made_handle_def)
qed

lemma HsmInitFileContext_agree:
  assumes "wf_ctxt c1" and "wf_ctxt c2" and "fsys c1 = fsys c2" and "filesize c1 = filesize c2"
  shows "candidate (fst (snd (HsmInitFileContext h env c1 statp))) =
         candidate (fst (snd (HsmInitFileContext h env c2 statp)))"
    and "filesize (fst (snd (HsmInitFileContext h env c1 statp))) =
         filesize (fst (snd (HsmInitFileContext h env c2 statp)))"
proof -
  show c: "candidate (fst (snd (HsmInitFileContext h env c1 statp))) =
         candidate (fst (snd (HsmInitFileContext h env c2 statp)))"
    by (simp only: HsmInitFileContext_candidate [OF assms(1)]
        HsmInitFileContext_candidate [OF assms(2)] fsys_only [OF assms(3)])
  show "filesize (fst (snd (HsmInitFileContext h env c1 statp))) =
         filesize (fst (snd (HsmInitFileContext h env c2 statp)))"
    by (simp only: HsmInitFileContext_filesize [OF assms(1)]
        HsmInitFileContext_filesize [OF assms(2)] c assms(4))
qed

text \<open>
  Claim C7. A second call with the same arguments gives what the first call gave.
  \<open>HsmInitFileContext\<close>, called again on the context it left, with the same metadata and
  the same answers of the environment, returns the same result: the same context, so
  the same \<open>candidate\<close> and \<open>filesize\<close>. \<open>HsmFilterExistingAttribute\<close> does not depend on
  what \<^verbatim>\<open>*skip_entry\<close> held. \<open>HsmAddNewAttribute\<close>, called again with the same cursor and
  namespace on the context and the result parameters the first call left, returns the
  same name, value and size and leaves the context as it is, although the first call
  rewrote the array of the context in place. Moreover the \<open>candidate\<close> and \<open>filesize\<close>
  that \<open>HsmInitFileContext\<close> leaves do not depend on what the array and \<open>attrlen\<close> of
  the context held before the call.
\<close>

theorem repeated_calls_agree:
  assumes "wf_ctxt hsm_f_ctxtp"
  shows "(let r = HsmInitFileContext h env contextp statp
          in HsmInitFileContext h env (fst (snd r)) statp = r) \<and>
         (let r = HsmFilterExistingAttribute h hsm_f_ctxtp namep valuesz flag skip_entry
          in HsmFilterExistingAttribute h hsm_f_ctxtp namep valuesz flag (snd r) = r) \<and>
         (let r = HsmAddNewAttribute h hsm_f_ctxtp cursor flag out
          in HsmAddNewAttribute h (fst (snd r)) cursor flag (snd (snd r)) = r) \<and>
         (wf_ctxt c1 \<and> wf_ctxt c2 \<and> fsys c1 = fsys c2 \<and> filesize c1 = filesize c2 \<longrightarrow>
            candidate (fst (snd (HsmInitFileContext h env c1 statp))) =
              candidate (fst (snd (HsmInitFileContext h env c2 statp))) \<and>
            filesize (fst (snd (HsmInitFileContext h env c1 statp))) =
              filesize (fst (snd (HsmInitFileContext h env c2 statp))))"
proof -
  have "HsmFilterExistingAttribute h hsm_f_ctxtp namep valuesz flag s =
        HsmFilterExistingAttribute h hsm_f_ctxtp namep valuesz flag s'" for s s'
    by (simp add: HsmFilterExistingAttribute_def)
  then show ?thesis
    unfolding Let_def
    using HsmInitFileContext_idem HsmAddNewAttribute_idem [OF assms]
      HsmInitFileContext_agree [of c1 c2 h env statp]
    by blast
qed

lemma example_rewritten:
  "msb_load (attrval (example_ctxt example_attr1)) 2 2 = 2"
  "msb_load (attrval (fst (snd (HsmAddNewAttribute linux_headers (example_ctxt example_attr1) 0
       (ATTR_ROOT linux_headers) out)))) 2 2 = 3"
proof -
  show "msb_load (attrval (example_ctxt example_attr1)) 2 2 = 2"
    by (simp add: example_ctxt_def example_attr1_def msb_load_def)
  have len: "length (attrval (example_ctxt example_attr1)) = 5000"
    using example_attr1_facts(1) by (simp add: wf_ctxt_def ATTRVAL_SIZE_def)
  have tb: "take_bit 16 (3 :: 64 word) = 3"
    by (simp add: take_bit_word_eq_self)
  show "msb_load (attrval (fst (snd (HsmAddNewAttribute linux_headers (example_ctxt example_attr1) 0
       (ATTR_ROOT linux_headers) out)))) 2 2 = 3"
    using example_attr1_facts(2)
    by (simp add: HsmAddNewAttribute_def Let_def layout len msb_load_msb_store tb
        DMF_ST_OFFLINE_def)
qed

lemma example_ctxt_same:
  "fsys (example_ctxt v) = \<lparr> dumpversion = 1, fsid = 7 \<rparr>"
  "filesize (example_ctxt v) = 1000"
  by (simp_all add: example_ctxt_def)

theorem repeated_calls_agree_witness:
  "wf_ctxt (example_ctxt example_attr1) \<and>
   msb_load (attrval (example_ctxt example_attr1)) 2 2 = 2 \<and>
   msb_load (attrval (fst (snd (HsmAddNewAttribute linux_headers (example_ctxt example_attr1) 0
       (ATTR_ROOT linux_headers) \<lparr> namepp = None, valuepp = [], valueszp = 0 \<rparr>)))) 2 2 = 3 \<and>
   HsmInitFileContext linux_headers (example_env example_attr0)
     (fst (snd (HsmInitFileContext linux_headers (example_env example_attr0) (example_ctxt [])
        example_statp))) example_statp =
   HsmInitFileContext linux_headers (example_env example_attr0) (example_ctxt [])
     example_statp \<and>
   fsys (example_ctxt []) = fsys (example_ctxt example_attr1) \<and>
   filesize (example_ctxt []) = filesize (example_ctxt example_attr1) \<and>
   candidate (fst (snd (HsmInitFileContext linux_headers (example_env example_attr0)
       (example_ctxt []) example_statp))) =
     candidate (fst (snd (HsmInitFileContext linux_headers (example_env example_attr0)
       (example_ctxt example_attr1) example_statp))) \<and>
   filesize (fst (snd (HsmInitFileContext linux_headers (example_env example_attr0)
       (example_ctxt []) example_statp))) =
     filesize (fst (snd (HsmInitFileContext linux_headers (example_env example_attr0)
       (example_ctxt example_attr1) example_statp))) \<and>
   HsmFilterExistingAttribute linux_headers (example_ctxt example_attr1) DMF_ATTR_NAME 48
     (ATTR_ROOT linux_headers)
     (snd (HsmFilterExistingAttribute linux_headers (example_ctxt example_attr1) DMF_ATTR_NAME 48
        (ATTR_ROOT linux_headers) 0)) =
   HsmFilterExistingAttribute linux_headers (example_ctxt example_attr1) DMF_ATTR_NAME 48
     (ATTR_ROOT linux_headers) 0 \<and>
   HsmAddNewAttribute linux_headers
     (fst (snd (HsmAddNewAttribute linux_headers (example_ctxt example_attr1) 0
       (ATTR_ROOT linux_headers) \<lparr> namepp = None, valuepp = [], valueszp = 0 \<rparr>))) 0
     (ATTR_ROOT linux_headers)
     (snd (snd (HsmAddNewAttribute linux_headers (example_ctxt example_attr1) 0
       (ATTR_ROOT linux_headers) \<lparr> namepp = None, valuepp = [], valueszp = 0 \<rparr>))) =
   HsmAddNewAttribute linux_headers (example_ctxt example_attr1) 0
       (ATTR_ROOT linux_headers) \<lparr> namepp = None, valuepp = [], valueszp = 0 \<rparr>"
  using repeated_calls_agree [OF example_attr1_facts(1), where h = linux_headers
      and env = "example_env example_attr0" and contextp = "example_ctxt []"
      and statp = example_statp and namep = DMF_ATTR_NAME and valuesz = 48
      and skip_entry = 0 and cursor = 0 and flag = "ATTR_ROOT linux_headers"
      and out = "\<lparr> namepp = None, valuepp = [], valueszp = 0 \<rparr>"
      and ?c1.0 = "example_ctxt []" and ?c2.0 = "example_ctxt example_attr1"]
    example_facts(1)
  by (simp add: Let_def example_rewritten example_attr1_facts example_ctxt_same)

end
